theory Spec2Isabelle
  imports Complex_Main
begin

section \<open>Python values and strings\<close>

text \<open>
  The two services of CiteGuard that carry decision logic are the similarity service
  (\<^verbatim>\<open>backend/app/services/similarity.py\<close>) and the citation generator, which the
  repository holds twice: \<^verbatim>\<open>backend/app/services/citation.py\<close> works on a metadata
  dictionary, \<^verbatim>\<open>Citation.py\<close> on the \<^verbatim>\<open>SourceMetadata\<close> dataclass.

  Strings are lists of characters, one \<^typ>\<open>char\<close> per code point below 256. Python
  floats are modelled by exact rationals: a quotient \<^verbatim>\<open>k / n\<close> of the source is the
  rational \<open>k / n\<close>, and a float literal such as \<^verbatim>\<open>0.3\<close> is the rational \<open>3/10\<close>.
\<close>

datatype error = AttributeError | TypeError | ValueError | IndexError | BackendError

text \<open>A value that a JSON request body can put into a source dictionary.\<close>

datatype pyval =
    PNone
  | PBool bool
  | PInt int
  | PStr string
  | PList "pyval list"
  | PDict "(string \<times> pyval) list"

text \<open>Python truthiness (\<^verbatim>\<open>if not x\<close>).\<close>

fun truthy :: "pyval \<Rightarrow> bool" where
  "truthy PNone = False"
| "truthy (PBool b) = b"
| "truthy (PInt i) = (i \<noteq> 0)"
| "truthy (PStr s) = (s \<noteq> [])"
| "truthy (PList xs) = (xs \<noteq> [])"
| "truthy (PDict kvs) = (kvs \<noteq> [])"

text \<open>Lists and dictionaries cannot be dictionary keys.\<close>

fun hashable :: "pyval \<Rightarrow> bool" where
  "hashable (PList xs) = False"
| "hashable (PDict kvs) = False"
| "hashable v = True"

text \<open>Equality of dictionary keys: \<^verbatim>\<open>True == 1\<close> and \<^verbatim>\<open>False == 0\<close>.\<close>

fun key_norm :: "pyval \<Rightarrow> pyval" where
  "key_norm (PBool b) = PInt (if b then 1 else 0)"
| "key_norm v = v"

definition key_eq :: "pyval \<Rightarrow> pyval \<Rightarrow> bool" where
  "key_eq a b = (key_norm a = key_norm b)"

text \<open>
  \<^verbatim>\<open>d[k] = v\<close> on an insertion-ordered dictionary: an existing key keeps its place
  and its key object, a new key goes to the end.
\<close>

fun dict_set :: "pyval \<Rightarrow> 'v \<Rightarrow> (pyval \<times> 'v) list \<Rightarrow> (pyval \<times> 'v) list" where
  "dict_set k v [] = [(k, v)]"
| "dict_set k v ((k', v') # kvs) =
     (if key_eq k' k then (k', v) # kvs else (k', v') # dict_set k v kvs)"

text \<open>\<^verbatim>\<open>d.get(key, default)\<close> on a dictionary with string keys.\<close>

type_synonym source = "string \<rightharpoonup> pyval"

definition dict_get :: "source \<Rightarrow> string \<Rightarrow> pyval \<Rightarrow> pyval" where
  "dict_get d k dflt = (case d k of None \<Rightarrow> dflt | Some v \<Rightarrow> v)"

text \<open>\<^verbatim>\<open>str.lower()\<close>, character by character (code points below 256).\<close>

definition lower_char :: "char \<Rightarrow> char" where
  "lower_char c =
     (let n = (of_char c :: nat)
      in if (65 \<le> n \<and> n \<le> 90) \<or> (192 \<le> n \<and> n \<le> 222 \<and> n \<noteq> 215)
         then char_of (n + 32) else c)"

definition str_lower :: "string \<Rightarrow> string" where
  "str_lower s = map lower_char s"

text \<open>The characters \<^verbatim>\<open>str.split()\<close> treats as whitespace (code points below 256).\<close>

definition is_space :: "char \<Rightarrow> bool" where
  "is_space c =
     (let n = (of_char c :: nat)
      in (9 \<le> n \<and> n \<le> 13) \<or> (28 \<le> n \<and> n \<le> 32) \<or> n = 133 \<or> n = 160)"

text \<open>
  \<^verbatim>\<open>s.split()\<close>: the maximal runs of non-whitespace characters, in order. The first
  argument is the word being read.
\<close>

fun split_from :: "string \<Rightarrow> string \<Rightarrow> string list" where
  "split_from w [] = (if w = [] then [] else [w])"
| "split_from w (c # cs) =
     (if is_space c
      then (if w = [] then split_from [] cs else w # split_from [] cs)
      else split_from (w @ [c]) cs)"

definition str_split :: "string \<Rightarrow> string list" where
  "str_split s = split_from [] s"

section \<open>The similarity service\<close>

text \<open>
  A recommendation is kept as a structured message: the source renders it into text with
  the percentage printed to one decimal, which is not modelled.
\<close>

datatype recommendation =
    NoSourcesToCompare
  | EmptyTextProvided
  | NoValidSourceContent
  | HighSimilarity rat
  | ModerateSimilarity rat
  | LowPlagiarismRisk
  | EmptyDocumentProvided
  | NoSourcesProvided
  | SignificantOverlap rat
  | SourceMatch pyval nat
  | LowSimilarity
  | ErrorMessage error

record analysis =
  plagiarism_score :: rat
  flagged_sections :: nat
  recommendations :: "recommendation list"
  total_matches :: nat
  sources_checked :: nat

text \<open>
  The embedding model and scikit-learn are not part of the repository. \<^verbatim>\<open>self.model\<close>
  is a parameter: \<open>encode_text\<close> is \<^verbatim>\<open>model.encode\<close> on one string, \<open>encode_batch\<close>
  is \<^verbatim>\<open>model.encode\<close> on a list, \<open>cosine\<close> is the row
  \<^verbatim>\<open>cosine_similarity([doc_embedding], source_embeddings)[0]\<close>. Each may raise.
\<close>

record backend =
  encode_text :: "string \<Rightarrow> error + rat list"
  encode_batch :: "pyval list \<Rightarrow> error + rat list list"
  cosine :: "rat list \<Rightarrow> rat list list \<Rightarrow> error + rat list"

text \<open>\<^verbatim>\<open>max(xs)\<close> on a non-empty list and \<^verbatim>\<open>sum(xs)\<close>, as left-to-right loops.\<close>

definition py_max :: "rat list \<Rightarrow> rat" where
  "py_max xs = foldl (\<lambda>m x. if m < x then x else m) (hd xs) (tl xs)"

definition py_sum :: "rat list \<Rightarrow> rat" where
  "py_sum xs = foldl (+) 0 xs"

text \<open>\<^verbatim>\<open>sum(1 for s in similarities if s > t)\<close>.\<close>

definition count_above :: "rat \<Rightarrow> rat list \<Rightarrow> nat" where
  "count_above t xs = length (filter (\<lambda>s. t < s) xs)"

text \<open>
  The loop of \<^verbatim>\<open>_analyze_simple\<close> over the sources, with its two accumulators
  \<^verbatim>\<open>similarities\<close> and \<^verbatim>\<open>matches_by_source\<close>. A truthy content that is not a string
  has no \<^verbatim>\<open>lower\<close> method; an unhashable title cannot be a key.
\<close>

fun simple_loop ::
  "string set \<Rightarrow> source list \<Rightarrow> rat list \<Rightarrow> (pyval \<times> rat \<times> nat) list
   \<Rightarrow> error + (rat list \<times> (pyval \<times> rat \<times> nat) list)" where
  "simple_loop doc_words [] similarities matches_by_source =
     Inr (similarities, matches_by_source)"
| "simple_loop doc_words (src # rest) similarities matches_by_source =
     (let source_content = dict_get src ''content'' (PStr '''');
          source_title = dict_get src ''title'' (PStr ''Unknown'')
      in if \<not> truthy source_content
         then simple_loop doc_words rest similarities matches_by_source
         else (case source_content of
                 PStr text \<Rightarrow>
                   (let source_words = set (str_split (str_lower text));
                        common_words = doc_words \<inter> source_words;
                        similarity =
                          (if card doc_words > 0
                           then rat_of_nat (card common_words) / rat_of_nat (card doc_words)
                           else 0)
                    in if hashable source_title
                       then simple_loop doc_words rest (similarities @ [similarity])
                              (dict_set source_title (similarity, card common_words)
                                 matches_by_source)
                       else Inl TypeError)
               | _ \<Rightarrow> Inl AttributeError))"

definition analyze_simple :: "string \<Rightarrow> source list \<Rightarrow> error + analysis" where
  "analyze_simple document_text sources =
     (let doc_words = set (str_split (str_lower document_text));
          doc_word_count = card doc_words
      in if doc_word_count = 0
         then Inr \<lparr>plagiarism_score = 0, flagged_sections = 0,
                   recommendations = [EmptyDocumentProvided],
                   total_matches = 0, sources_checked = 0\<rparr>
         else (case simple_loop doc_words sources [] [] of
                 Inl e \<Rightarrow> Inl e
               | Inr (similarities, matches_by_source) \<Rightarrow>
                   if similarities = []
                   then Inr \<lparr>plagiarism_score = 0, flagged_sections = 0,
                             recommendations = [NoSourcesProvided],
                             total_matches = 0, sources_checked = 0\<rparr>
                   else (let max_similarity = py_max similarities;
                             avg_similarity =
                               py_sum similarities / rat_of_nat (length similarities);
                             score = (max_similarity + avg_similarity) / 2;
                             high_overlap = count_above (3/10) similarities
                         in Inr \<lparr>plagiarism_score = score,
                                 flagged_sections = high_overlap,
                                 recommendations =
                                   (if 4/10 < score
                                    then SignificantOverlap score #
                                         map (\<lambda>(title, sim, n). SourceMatch title n)
                                           (filter (\<lambda>(title, sim, n). 3/10 < sim)
                                              matches_by_source)
                                    else [LowSimilarity]),
                                 total_matches = count_above (15/100) similarities,
                                 sources_checked = length sources\<rparr>)))"

text \<open>
  The body of the \<^verbatim>\<open>try\<close> block of \<^verbatim>\<open>_analyze_semantic\<close>. \<^verbatim>\<open>np.max\<close> of an empty
  array raises.
\<close>

definition semantic_body :: "backend \<Rightarrow> string \<Rightarrow> source list \<Rightarrow> error + analysis" where
  "semantic_body model document_text sources =
     (case encode_text model document_text of
        Inl e \<Rightarrow> Inl e
      | Inr doc_embedding \<Rightarrow>
          (let source_texts =
                 map (\<lambda>s. dict_get s ''content'' (PStr ''''))
                   (filter (\<lambda>s. truthy (dict_get s ''content'' PNone)) sources)
           in if source_texts = []
              then Inr \<lparr>plagiarism_score = 0, flagged_sections = 0,
                        recommendations = [NoValidSourceContent],
                        total_matches = 0, sources_checked = 0\<rparr>
              else (case encode_batch model source_texts of
                      Inl e \<Rightarrow> Inl e
                    | Inr source_embeddings \<Rightarrow>
                        (case cosine model doc_embedding source_embeddings of
                           Inl e \<Rightarrow> Inl e
                         | Inr similarities \<Rightarrow>
                             if similarities = [] then Inl ValueError
                             else (let max_similarity = py_max similarities;
                                       avg_similarity =
                                         py_sum similarities
                                           / rat_of_nat (length similarities);
                                       plagiarism_score =
                                         min ((max_similarity + avg_similarity) / 2) 1;
                                       high_sim_count = count_above (75/100) similarities
                                   in Inr \<lparr>plagiarism_score = plagiarism_score,
                                           flagged_sections = high_sim_count,
                                           recommendations =
                                             [if 85/100 < plagiarism_score
                                              then HighSimilarity plagiarism_score
                                              else if 7/10 < plagiarism_score
                                              then ModerateSimilarity plagiarism_score
                                              else LowPlagiarismRisk],
                                           total_matches =
                                             count_above (5/10) similarities,
                                           sources_checked = length sources\<rparr>)))))"

text \<open>\<^verbatim>\<open>_analyze_semantic\<close>: any exception of the body falls back to the word overlap.\<close>

definition analyze_semantic :: "backend \<Rightarrow> string \<Rightarrow> source list \<Rightarrow> error + analysis" where
  "analyze_semantic model document_text sources =
     (case semantic_body model document_text sources of
        Inl e \<Rightarrow> analyze_simple document_text sources
      | Inr r \<Rightarrow> Inr r)"

text \<open>The body of the \<^verbatim>\<open>try\<close> block of \<^verbatim>\<open>analyze_document\<close>.\<close>

definition scoring :: "backend option \<Rightarrow> string \<Rightarrow> source list \<Rightarrow> error + analysis" where
  "scoring model document_text sources =
     (case model of
        Some m \<Rightarrow> analyze_semantic m document_text sources
      | None \<Rightarrow> analyze_simple document_text sources)"

text \<open>
  \<^verbatim>\<open>analyze_document\<close>. The handler \<^verbatim>\<open>except Exception\<close> turns every exception of
  the body into a result.
\<close>

definition analyze_document :: "backend option \<Rightarrow> string \<Rightarrow> source list \<Rightarrow> error + analysis" where
  "analyze_document model document_text sources =
     (if document_text = [] \<or> sources = []
      then Inr \<lparr>plagiarism_score = 0, flagged_sections = 0,
                recommendations =
                  [if sources = [] then NoSourcesToCompare else EmptyTextProvided],
                total_matches = 0,
                sources_checked = (if sources \<noteq> [] then length sources else 0)\<rparr>
      else (case scoring model document_text sources of
              Inr r \<Rightarrow> Inr r
            | Inl e \<Rightarrow>
                Inr \<lparr>plagiarism_score = 0, flagged_sections = 0,
                     recommendations = [ErrorMessage e],
                     total_matches = 0,
                     sources_checked = (if sources \<noteq> [] then length sources else 0)\<rparr>))"

section \<open>Helpers of the citation generators\<close>

text \<open>\<^verbatim>\<open>sep.join(parts)\<close>.\<close>

fun join :: "string \<Rightarrow> string list \<Rightarrow> string" where
  "join sep [] = []"
| "join sep [p] = p"
| "join sep (p # q # ps) = p @ sep @ join sep (q # ps)"

text \<open>\<^verbatim>\<open>str(n)\<close> for an integer, as an f-string renders it.\<close>

definition digit_char :: "nat \<Rightarrow> char" where
  "digit_char d = char_of (48 + d)"

fun str_nat :: "nat \<Rightarrow> string" where
  "str_nat n = (if n < 10 then [digit_char n] else str_nat (n div 10) @ [digit_char (n mod 10)])"

definition str_int :: "int \<Rightarrow> string" where
  "str_int i = (if i < 0 then CHR ''-'' # str_nat (nat (- i)) else str_nat (nat i))"

text \<open>\<^verbatim>\<open>s.split(',')[0]\<close>: the text before the first comma.\<close>

definition before_comma :: "string \<Rightarrow> string" where
  "before_comma s = takeWhile (\<lambda>c. c \<noteq> CHR '','') s"

text \<open>The double quote character, written as a one-letter string.\<close>

definition dquote :: string where
  "dquote = [CHR 0x22]"

text \<open>A generated citation: the dictionary with the keys \<^verbatim>\<open>full\<close> and \<^verbatim>\<open>in_text\<close>.\<close>

record citation =
  full :: string
  in_text :: string

text \<open>
  \<^verbatim>\<open>_format_authors_apa\<close> and \<^verbatim>\<open>_format_authors_mla\<close> are the same in both files.
  A word that \<^verbatim>\<open>split()\<close> returns is never empty, so \<^verbatim>\<open>p[0]\<close> is its head; the
  indices into \<^verbatim>\<open>formatted\<close> are in range by the length tests before them.
\<close>

definition apa_author :: "string \<Rightarrow> string" where
  "apa_author author =
     (let parts = str_split author
      in if length parts \<ge> 2
         then last parts @ '', '' @ concat (map (\<lambda>p. [hd p] @ ''.'') (butlast parts))
         else author)"

definition format_authors_apa :: "string list \<Rightarrow> string" where
  "format_authors_apa authors =
     (if authors = [] then ''''
      else (let formatted = map apa_author (take 20 authors)
            in if length authors = 1 then formatted ! 0
               else if length authors = 2
               then formatted ! 0 @ '', & '' @ formatted ! 1
               else join '', '' (butlast formatted) @ '', & '' @ last formatted))"

definition mla_first :: "string \<Rightarrow> string" where
  "mla_first author =
     (let parts = str_split author
      in if length parts \<ge> 2
         then last parts @ '', '' @ join '' '' (butlast parts)
         else author)"

definition format_authors_mla :: "string list \<Rightarrow> string" where
  "format_authors_mla authors =
     (if authors = [] then ''''
      else if length authors = 1 then mla_first (authors ! 0)
      else if length authors = 2
      then mla_first (authors ! 0) @ '', and '' @ authors ! 1
      else mla_first (authors ! 0) @ '', et al.'')"

text \<open>\<^verbatim>\<open>CitationStyle\<close> is a string enumeration: a member equals its value.\<close>

definition APA :: string where "APA = ''APA''"
definition MLA :: string where "MLA = ''MLA''"
definition CHICAGO :: string where "CHICAGO = ''Chicago''"
definition HARVARD :: string where "HARVARD = ''Harvard''"
definition IEEE :: string where "IEEE = ''IEEE''"

definition supported_styles :: "string set" where
  "supported_styles = {APA, MLA, CHICAGO, HARVARD, IEEE}"

section \<open>The citation generator of the backend service\<close>

text \<open>
  \<^verbatim>\<open>backend/app/services/citation.py\<close> reads a metadata dictionary with
  \<^verbatim>\<open>metadata.get\<close>. A key is missing, holds \<^verbatim>\<open>None\<close>, or holds a value.
  The route that calls the generator passes a string as title, a list of strings as
  authors, an integer as year, and strings as publication name and URL. The generators
  of this file carry the suffix \<open>_dict\<close>, since \<^verbatim>\<open>Citation.py\<close> has generators of
  the same names.
\<close>

datatype 'a entry = Missing | IsNone | Has 'a

record metadata_dict =
  key_title :: "string entry"
  key_authors :: "string list entry"
  key_year :: "int entry"
  key_publication_name :: "string entry"
  key_url :: "string entry"

text \<open>\<^verbatim>\<open>metadata.get("authors", [])\<close>; \<^verbatim>\<open>None\<close> is as falsy as the empty list.\<close>

definition get_authors :: "metadata_dict \<Rightarrow> string list" where
  "get_authors metadata = (case key_authors metadata of Has xs \<Rightarrow> xs | _ \<Rightarrow> [])"

text \<open>\<^verbatim>\<open>metadata.get(key, "")\<close> inside an f-string: \<^verbatim>\<open>None\<close> prints as \<^verbatim>\<open>None\<close>.\<close>

definition get_text :: "string entry \<Rightarrow> string" where
  "get_text e = (case e of Missing \<Rightarrow> '''' | IsNone \<Rightarrow> ''None'' | Has s \<Rightarrow> s)"

text \<open>\<^verbatim>\<open>year or 'n.d.'\<close> with \<^verbatim>\<open>year = metadata.get("year")\<close>.\<close>

definition year_text :: "int entry \<Rightarrow> string \<Rightarrow> string" where
  "year_text e placeholder =
     (case e of Has y \<Rightarrow> (if y \<noteq> 0 then str_int y else placeholder) | _ \<Rightarrow> placeholder)"

definition generate_apa_dict :: "metadata_dict \<Rightarrow> citation" where
  "generate_apa_dict metadata =
     (let authors = get_authors metadata;
          title = get_text (key_title metadata);
          pub_name = get_text (key_publication_name metadata);
          author_str = (if authors \<noteq> [] then format_authors_apa authors else ''Unknown'');
          full0 = author_str @ '' ('' @ year_text (key_year metadata) ''n.d.'' @ ''). ''
                    @ title @ ''. '' @ pub_name @ ''.'';
          full1 = (case key_url metadata of
                     Has url \<Rightarrow> (if url \<noteq> [] then full0 @ '' Retrieved from '' @ url else full0)
                   | _ \<Rightarrow> full0)
      in \<lparr>full = full1,
          in_text = (if authors \<noteq> []
                     then ''('' @ before_comma author_str @ '' ''
                            @ year_text (key_year metadata) ''n.d.'' @ '')''
                     else ''Unknown'')\<rparr>)"

definition generate_mla_dict :: "metadata_dict \<Rightarrow> citation" where
  "generate_mla_dict metadata =
     (let authors = get_authors metadata;
          title = get_text (key_title metadata);
          pub_name = get_text (key_publication_name metadata);
          author_str = (if authors \<noteq> [] then format_authors_mla authors else ''Unknown'')
      in \<lparr>full = author_str @ ''. '' @ dquote @ title @ ''.'' @ dquote @ '' '' @ pub_name @ '', ''
                   @ year_text (key_year metadata) ''n.d.'' @ ''.'',
          in_text = ''('' @ (if CHR '','' \<in> set author_str then before_comma author_str
                             else author_str) @ '')''\<rparr>)"

definition generate_chicago_dict :: "metadata_dict \<Rightarrow> citation" where
  "generate_chicago_dict metadata =
     (let authors = get_authors metadata;
          title = get_text (key_title metadata);
          pub_name = get_text (key_publication_name metadata);
          author_str = (if authors \<noteq> [] then join '', '' authors else ''Unknown'')
      in \<lparr>full = author_str @ ''. '' @ dquote @ title @ ''.'' @ dquote @ '' '' @ pub_name @ '' (''
                   @ year_text (key_year metadata) ''n.d.'' @ '').'',
          in_text = ''('' @ before_comma author_str @ '' ''
                      @ year_text (key_year metadata) ''n.d.'' @ '')''\<rparr>)"

definition generate_harvard_dict :: "metadata_dict \<Rightarrow> citation" where
  "generate_harvard_dict metadata =
     (let authors = get_authors metadata;
          title = get_text (key_title metadata);
          pub_name = get_text (key_publication_name metadata);
          author_str = (if authors \<noteq> [] then join '', '' authors else ''Unknown'')
      in \<lparr>full = author_str @ '', '' @ year_text (key_year metadata) ''n.d.d'' @ ''. ''
                   @ title @ ''. '' @ pub_name @ ''.'',
          in_text = ''('' @ before_comma author_str @ '' ''
                      @ year_text (key_year metadata) ''n.d.'' @ '')''\<rparr>)"

definition generate_ieee_dict :: "metadata_dict \<Rightarrow> citation" where
  "generate_ieee_dict metadata =
     (let authors = get_authors metadata;
          title = get_text (key_title metadata);
          pub_name = get_text (key_publication_name metadata);
          author_str = (if authors \<noteq> [] then join '', '' authors else ''Unknown'')
      in \<lparr>full = ''[1] '' @ author_str @ '', '' @ dquote @ title @ '','' @ dquote @ '' '' @ pub_name @ '', ''
                   @ year_text (key_year metadata) ''n.d.'' @ ''.'',
          in_text = ''[1]''\<rparr>)"

definition generate_citation_dict :: "metadata_dict \<Rightarrow> string \<Rightarrow> citation" where
  "generate_citation_dict metadata style =
     (if style = APA then generate_apa_dict metadata
      else if style = MLA then generate_mla_dict metadata
      else if style = CHICAGO then generate_chicago_dict metadata
      else if style = HARVARD then generate_harvard_dict metadata
      else if style = IEEE then generate_ieee_dict metadata
      else generate_apa_dict metadata)"

declare str_nat.simps [simp del]

section \<open>The citation generator of Citation.py\<close>

text \<open>
  \<^verbatim>\<open>Citation.py\<close> works on the dataclass \<^verbatim>\<open>SourceMetadata\<close>. Its generators index
  lists (\<^verbatim>\<open>m.authors[0]\<close>, \<^verbatim>\<open>author.split()[-1]\<close>), which raises
  \<^verbatim>\<open>IndexError\<close> on an empty list, so they return an error or a citation.
\<close>

record SourceMetadata =
  title :: string
  authors :: "string list"
  year :: "int option"
  publication_name :: "string option"
  volume :: "string option"
  issue :: "string option"
  pages :: "string option"
  url :: "string option"
  doi :: "string option"
  access_date :: "string option"
  source_type :: string

text \<open>Truthiness of an optional string and of an optional integer.\<close>

definition given :: "string option \<Rightarrow> bool" where
  "given x = (case x of None \<Rightarrow> False | Some s \<Rightarrow> s \<noteq> [])"

definition text_of :: "string option \<Rightarrow> string" where
  "text_of x = (case x of None \<Rightarrow> [] | Some s \<Rightarrow> s)"

definition year_given :: "int option \<Rightarrow> bool" where
  "year_given y = (case y of None \<Rightarrow> False | Some n \<Rightarrow> n \<noteq> 0)"

text \<open>\<^verbatim>\<open>m.year or "n.d."\<close> and \<^verbatim>\<open>m.publication_name or 'Publisher'\<close>.\<close>

definition year_or_nd :: "int option \<Rightarrow> string" where
  "year_or_nd y = (case y of None \<Rightarrow> ''n.d.'' | Some n \<Rightarrow> (if n \<noteq> 0 then str_int n else ''n.d.''))"

definition text_or :: "string option \<Rightarrow> string \<Rightarrow> string" where
  "text_or x dflt = (if given x then text_of x else dflt)"

text \<open>Sequencing of computations that may raise.\<close>

definition and_then :: "error + 'a \<Rightarrow> ('a \<Rightarrow> error + 'b) \<Rightarrow> error + 'b" where
  "and_then r f = (case r of Inl e \<Rightarrow> Inl e | Inr v \<Rightarrow> f v)"

text \<open>\<^verbatim>\<open>xs[0]\<close> and \<^verbatim>\<open>author.split()[-1]\<close>.\<close>

definition first_item :: "'a list \<Rightarrow> error + 'a" where
  "first_item xs = (case xs of [] \<Rightarrow> Inl IndexError | x # _ \<Rightarrow> Inr x)"

definition last_word :: "string \<Rightarrow> error + string" where
  "last_word author =
     (case str_split author of [] \<Rightarrow> Inl IndexError | p # ps \<Rightarrow> Inr (last (p # ps)))"

definition generate_apa :: "SourceMetadata \<Rightarrow> error + citation" where
  "generate_apa m =
     (let authors_str = format_authors_apa (authors m);
          year_str = year_or_nd (year m);
          in_text_result =
            (if length (authors m) = 1
             then and_then (last_word (authors m ! 0))
                    (\<lambda>a. Inr (''('' @ a @ '', '' @ year_str @ '')''))
             else if length (authors m) = 2
             then and_then (last_word (authors m ! 0))
                    (\<lambda>a. and_then (last_word (authors m ! 1))
                      (\<lambda>b. Inr (''('' @ a @ '' & '' @ b @ '', '' @ year_str @ '')'')))
             else and_then (first_item (authors m))
                    (\<lambda>first. and_then (last_word first)
                      (\<lambda>a. Inr (''('' @ a @ '' et al., '' @ year_str @ '')''))));
          full_str =
            (if source_type m = ''article''
             then authors_str @ '' ('' @ year_str @ ''). '' @ title m @ ''. ''
                  @ (if given (publication_name m)
                     then ''*'' @ text_of (publication_name m) @ ''*'' else [])
                  @ (if given (volume m) then '', *'' @ text_of (volume m) @ ''*'' else [])
                  @ (if given (issue m) then ''('' @ text_of (issue m) @ '')'' else [])
                  @ (if given (pages m) then '', '' @ text_of (pages m) else [])
                  @ ''.''
                  @ (if given (doi m) then '' https://doi.org/'' @ text_of (doi m) else [])
             else if source_type m = ''book''
             then authors_str @ '' ('' @ year_str @ ''). *'' @ title m @ ''*. ''
                  @ text_or (publication_name m) ''Publisher'' @ ''.''
             else if source_type m = ''website''
             then authors_str @ '' ('' @ year_str @ ''). *'' @ title m @ ''*. ''
                  @ text_or (publication_name m) ''Website name'' @ ''. ''
                  @ (if given (url m) then text_of (url m) else [])
             else authors_str @ '' ('' @ year_str @ ''). '' @ title m @ ''.'')
      in and_then in_text_result (\<lambda>it. Inr \<lparr>full = full_str, in_text = it\<rparr>))"

definition generate_mla :: "SourceMetadata \<Rightarrow> error + citation" where
  "generate_mla m =
     (let authors_str = format_authors_mla (authors m);
          in_text_result =
            (if authors m \<noteq> []
             then and_then (last_word (authors m ! 0))
                    (\<lambda>a. Inr (''('' @ a
                                @ (if given (pages m) then '' '' @ text_of (pages m) else [])
                                @ '')''))
             else Inr (''('' @ dquote @ take 20 (title m) @ ''...'' @ dquote @ '')''));
          full_str =
            (if authors_str \<noteq> [] then authors_str @ ''. '' else [])
            @ dquote @ title m @ ''.'' @ dquote @ '' ''
            @ (if source_type m = ''article''
               then (if given (publication_name m)
                     then ''*'' @ text_of (publication_name m) @ ''*, '' else [])
                    @ (if given (volume m) then ''vol. '' @ text_of (volume m) @ '', '' else [])
                    @ (if given (issue m) then ''no. '' @ text_of (issue m) @ '', '' else [])
                    @ (if year_given (year m) then year_or_nd (year m) @ '', '' else [])
                    @ (if given (pages m) then ''pp. '' @ text_of (pages m) @ ''.'' else [])
               else if source_type m = ''book''
               then ''*'' @ text_or (publication_name m) ''Publisher'' @ ''*, ''
                    @ year_or_nd (year m) @ ''.''
               else if source_type m = ''website''
               then (if given (publication_name m)
                     then ''*'' @ text_of (publication_name m) @ ''*, '' else [])
                    @ (if year_given (year m) then year_or_nd (year m) @ '', '' else [])
                    @ (if given (url m) then text_of (url m) else [])
               else [])
      in and_then in_text_result (\<lambda>it. Inr \<lparr>full = full_str, in_text = it\<rparr>))"

definition generate_chicago :: "SourceMetadata \<Rightarrow> error + citation" where
  "generate_chicago m =
     (let authors_str = format_authors_apa (authors m);
          in_text_result =
            and_then (if authors m \<noteq> [] then last_word (authors m ! 0) else Inr ''Source'')
              (\<lambda>a. Inr (''('' @ a @ '' '' @ year_or_nd (year m) @ '')''));
          full_str =
            authors_str @ ''. ''
            @ (if year_given (year m) then year_or_nd (year m) @ ''. '' else [])
            @ dquote @ title m @ ''.'' @ dquote @ '' ''
            @ (if given (publication_name m)
               then ''*'' @ text_of (publication_name m) @ ''* '' else [])
            @ (if given (volume m) then text_of (volume m) @ '' '' else [])
            @ (if given (issue m) then ''('' @ text_of (issue m) @ '')'' else [])
            @ (if given (pages m) then '': '' @ text_of (pages m) else [])
            @ ''.''
      in and_then in_text_result (\<lambda>it. Inr \<lparr>full = full_str, in_text = it\<rparr>))"

definition generate_harvard :: "SourceMetadata \<Rightarrow> error + citation" where
  "generate_harvard m = generate_apa m"

text \<open>
  One author of the IEEE list:
  \<^verbatim>\<open>" ".join([p[0] + "." for p in author.split()[:-1]] + [author.split()[-1]])\<close>.
\<close>

definition ieee_author :: "string \<Rightarrow> error + string" where
  "ieee_author author =
     and_then (last_word author)
       (\<lambda>surname. Inr (join '' '' (map (\<lambda>p. [hd p] @ ''.'') (butlast (str_split author))
                                   @ [surname])))"

fun ieee_author_list :: "string list \<Rightarrow> error + string list" where
  "ieee_author_list [] = Inr []"
| "ieee_author_list (author # rest) =
     and_then (ieee_author author)
       (\<lambda>a. and_then (ieee_author_list rest) (\<lambda>as. Inr (a # as)))"

definition ieee_authors_str :: "string list \<Rightarrow> error + string" where
  "ieee_authors_str authors_in =
     and_then (ieee_author_list (take 6 authors_in))
       (\<lambda>rendered. Inr (join '', '' rendered
                         @ (if length authors_in > 6 then '', et al.'' else [])))"

definition generate_ieee :: "SourceMetadata \<Rightarrow> error + citation" where
  "generate_ieee m =
     and_then (ieee_authors_str (authors m))
       (\<lambda>authors_str.
          Inr \<lparr>full =
                 authors_str @ '', ''
                 @ dquote @ title m @ '','' @ dquote @ '' ''
                 @ (if given (publication_name m)
                    then ''*'' @ text_of (publication_name m) @ ''*, '' else [])
                 @ (if given (volume m) then ''vol. '' @ text_of (volume m) @ '', '' else [])
                 @ (if given (issue m) then ''no. '' @ text_of (issue m) @ '', '' else [])
                 @ (if given (pages m) then ''pp. '' @ text_of (pages m) @ '', '' else [])
                 @ (if year_given (year m) then year_or_nd (year m) @ ''.'' else []),
               in_text = ''[1]''\<rparr>)"

definition generate_citation :: "SourceMetadata \<Rightarrow> string \<Rightarrow> error + citation" where
  "generate_citation metadata style =
     (if style = APA then generate_apa metadata
      else if style = MLA then generate_mla metadata
      else if style = CHICAGO then generate_chicago metadata
      else if style = HARVARD then generate_harvard metadata
      else if style = IEEE then generate_ieee metadata
      else Inl ValueError)"


section \<open>Notions of the specification\<close>

text \<open>
  The specification speaks of the case-lowered set of whitespace-delimited words of a
  text, of the sources with non-empty content, and of the lexical overlap: the number of
  distinct lower-cased words shared between document and source, divided by the number
  of distinct lower-cased document words (0 if the document has no word).
\<close>

definition word_set :: "string \<Rightarrow> string set" where
  "word_set s = set (str_split (str_lower s))"

definition has_content :: "source \<Rightarrow> bool" where
  "has_content src = truthy (dict_get src ''content'' (PStr ''''))"

definition content_text :: "source \<Rightarrow> string" where
  "content_text src = (case dict_get src ''content'' (PStr '''') of PStr t \<Rightarrow> t | _ \<Rightarrow> '''')"

definition overlap :: "string \<Rightarrow> string \<Rightarrow> rat" where
  "overlap doc text =
     (if card (word_set doc) = 0 then 0
      else rat_of_nat (card (word_set doc \<inter> word_set text)) / rat_of_nat (card (word_set doc)))"

text \<open>
  A source as the specification's data model has it: the content and the title, when
  present, are strings.
\<close>

definition text_source :: "source \<Rightarrow> bool" where
  "text_source src =
     ((case dict_get src ''content'' (PStr '''') of PStr t \<Rightarrow> True | _ \<Rightarrow> False) \<and>
      (case dict_get src ''title'' (PStr ''Unknown'') of PStr t \<Rightarrow> True | _ \<Rightarrow> False))"

text \<open>The per-source similarities of the lexical strategy, one per source with content.\<close>

definition overlaps :: "string \<Rightarrow> source list \<Rightarrow> rat list" where
  "overlaps doc sources = map (\<lambda>s. overlap doc (content_text s)) (filter has_content sources)"





section \<open>An example backend\<close>

text \<open>
  An embedding backend with unit vectors, for which the dot product is the cosine. The
  vector of the document and the vectors of the sources point in opposite directions.
\<close>

definition opposed_backend :: backend where
  "opposed_backend =
     \<lparr>encode_text = (\<lambda>t. Inr [1, 0]),
      encode_batch = (\<lambda>ts. Inr (map (\<lambda>t. [- 1, 0]) ts)),
      cosine = (\<lambda>d es. Inr (map (\<lambda>e. sum_list (map2 (*) d e)) es))\<rparr>"


section \<open>Example metadata\<close>

text \<open>The record of the specification's example, for each of the two generators.\<close>

definition jane_doe :: SourceMetadata where
  "jane_doe =
     \<lparr>title = ''T'', authors = [''Jane Doe''], year = Some 2024,
      publication_name = Some ''J'', volume = None, issue = None, pages = None,
      url = None, doi = None, access_date = None, source_type = ''article''\<rparr>"

definition jane_doe_dict :: metadata_dict where
  "jane_doe_dict =
     \<lparr>key_title = Has ''T'', key_authors = Has [''Jane Doe''], key_year = Has 2024,
      key_publication_name = Has ''J'', key_url = IsNone\<rparr>"


section \<open>Properties of the similarity service\<close>

subsection \<open>Maximum, sum and the loop over the sources\<close>

lemma py_max_eq_Max: "xs \<noteq> [] \<Longrightarrow> py_max xs = Max (set xs)"
proof -
  assume ne: "xs \<noteq> []"
  have f: "(\<lambda>m x. if m < x then x else m) = (\<lambda>m x. max x (m::rat))"
    by (auto simp: fun_eq_iff max_def)
  have "py_max xs = fold max (tl xs) (hd xs)"
    unfolding py_max_def f by (simp add: foldl_conv_fold)
  also have "\<dots> = Max (set (hd xs # tl xs))"
    by (simp only: Max.set_eq_fold)
  finally show ?thesis using ne by simp
qed

lemma py_sum_eq_sum_list: "py_sum xs = sum_list xs"
proof -
  have "foldl (+) a xs = a + sum_list xs" for a :: rat
    by (induction xs arbitrary: a) (simp_all add: add.assoc)
  then show ?thesis by (simp add: py_sum_def)
qed

lemma similarity_eq_overlap:
  "(if card (word_set doc) > 0
    then rat_of_nat (card (word_set doc \<inter> set (str_split (str_lower t))))
           / rat_of_nat (card (word_set doc))
    else 0) = overlap doc t"
  by (simp add: overlap_def word_set_def)

text \<open>The loop appends one overlap per source with content, in the order of the sources.\<close>

lemma simple_loop_result:
  "simple_loop (word_set doc) srcs sims ms = Inr (sims', ms')
   \<Longrightarrow> sims' = sims @ overlaps doc srcs"
proof (induction srcs arbitrary: sims ms)
  case Nil
  then show ?case by (simp add: overlaps_def)
next
  case (Cons src rest)
  show ?case
  proof (cases "has_content src")
    case False
    with Cons show ?thesis by (simp add: overlaps_def has_content_def)
  next
    case True
    then obtain t where t: "dict_get src ''content'' (PStr '''') = PStr t"
      using Cons.prems by (auto simp: has_content_def Let_def split: pyval.splits if_splits)
    have ct: "content_text src = t" by (simp add: content_text_def t)
    from Cons.prems True t
    have "simple_loop (word_set doc) rest (sims @ [overlap doc t])
            (dict_set (dict_get src ''title'' (PStr ''Unknown''))
               (overlap doc t, card (word_set doc \<inter> set (str_split (str_lower t)))) ms)
          = Inr (sims', ms')"
      by (simp add: has_content_def Let_def similarity_eq_overlap split: if_splits)
    from Cons.IH [OF this] show ?thesis
      using True ct by (simp add: overlaps_def)
  qed
qed

lemma overlap_range: "0 \<le> overlap doc t \<and> overlap doc t \<le> 1"
proof (cases "card (word_set doc) = 0")
  case True
  then show ?thesis by (simp add: overlap_def)
next
  case False
  then have fin: "finite (word_set doc)" by (simp add: word_set_def)
  have "card (word_set doc \<inter> word_set t) \<le> card (word_set doc)"
    by (rule card_mono [OF fin]) simp
  with False show ?thesis by (simp add: overlap_def)
qed

lemma overlaps_range: "\<forall>x\<in>set (overlaps doc sources). 0 \<le> x \<and> x \<le> 1"
  by (auto simp: overlaps_def overlap_range)

lemma count_above_overlaps:
  "count_above t (overlaps doc sources)
   = length (filter (\<lambda>s. t < overlap doc (content_text s)) (filter has_content sources))"
  by (simp add: count_above_def overlaps_def filter_map o_def)

subsection \<open>Lowering a text keeps its word boundaries\<close>

lemma is_space_lower_char: "is_space (lower_char c) = is_space c"
proof -
  let ?n = "of_char c :: nat"
  show ?thesis
  proof (cases "(65 \<le> ?n \<and> ?n \<le> 90) \<or> (192 \<le> ?n \<and> ?n \<le> 222 \<and> ?n \<noteq> 215)")
    case False
    then have "lower_char c = c" unfolding lower_char_def Let_def by (simp only: if_False)
    then show ?thesis by simp
  next
    case True
    then have lc: "lower_char c = char_of (?n + 32)" by (simp add: lower_char_def Let_def)
    from True have m: "(?n + 32) mod 256 = ?n + 32" by auto
    have "(of_char (lower_char c) :: nat) = ?n + 32"
      unfolding lc using m by simp
    with True show ?thesis by (auto simp: is_space_def Let_def)
  qed
qed

lemma split_from_lower:
  "split_from (map lower_char w) (map lower_char s) = map (map lower_char) (split_from w s)"
proof (induction s arbitrary: w)
  case Nil
  show ?case by simp
next
  case (Cons c cs)
  from Cons [of "[]"]
  have e: "split_from [] (map lower_char cs) = map (map lower_char) (split_from [] cs)"
    by simp
  from Cons [of "w @ [c]"]
  have s: "split_from (map lower_char w @ [lower_char c]) (map lower_char cs)
      = map (map lower_char) (split_from (w @ [c]) cs)"
    by simp
  show ?case by (simp add: is_space_lower_char e s)
qed

lemma str_split_lower: "str_split (str_lower s) = map str_lower (str_split s)"
proof -
  have l: "str_lower = map lower_char" by (rule ext) (simp add: str_lower_def)
  have "split_from [] (map lower_char s) = map (map lower_char) (split_from [] s)"
    using split_from_lower [of "[]" s] by simp
  then show ?thesis unfolding str_split_def l .
qed

lemma word_set_card: "str_split doc \<noteq> [] \<Longrightarrow> 0 < card (word_set doc)"
  by (simp add: word_set_def str_split_lower card_gt_0_iff)

subsection \<open>The average of maximum and mean\<close>

lemma sum_list_le_length:
  "(\<forall>x\<in>set xs. x \<le> (1::rat)) \<Longrightarrow> sum_list xs \<le> rat_of_nat (length xs)"
  by (induction xs) (simp_all add: add_mono)

lemma mean_max_nonneg:
  assumes ne: "xs \<noteq> []" and lo: "\<forall>x\<in>set xs. (0::rat) \<le> x"
  shows "0 \<le> (py_max xs + py_sum xs / rat_of_nat (length xs)) / 2"
proof -
  have mem: "py_max xs \<in> set xs" using ne by (simp add: py_max_eq_Max)
  have "0 \<le> py_sum xs" using lo by (simp add: py_sum_eq_sum_list sum_list_nonneg)
  then have "0 \<le> py_sum xs / rat_of_nat (length xs)" by simp
  moreover from mem lo have "0 \<le> py_max xs" by auto
  ultimately show ?thesis by simp
qed

lemma mean_max_le_one:
  assumes ne: "xs \<noteq> []" and hi: "\<forall>x\<in>set xs. x \<le> (1::rat)"
  shows "(py_max xs + py_sum xs / rat_of_nat (length xs)) / 2 \<le> 1"
proof -
  have mem: "py_max xs \<in> set xs" using ne by (simp add: py_max_eq_Max)
  have n: "0 < rat_of_nat (length xs)" using ne by simp
  have "py_sum xs \<le> rat_of_nat (length xs)"
    using hi by (simp add: py_sum_eq_sum_list sum_list_le_length)
  then have "py_sum xs / rat_of_nat (length xs) \<le> 1" using n by (simp add: divide_le_eq)
  moreover from mem hi have "py_max xs \<le> 1" by auto
  ultimately show ?thesis by simp
qed

subsection \<open>What the word-overlap analysis returns\<close>

lemma analyze_simple_cases:
  assumes "analyze_simple doc sources = Inr r"
  shows "(card (word_set doc) = 0 \<and>
            r = \<lparr>plagiarism_score = 0, flagged_sections = 0,
                 recommendations = [EmptyDocumentProvided],
                 total_matches = 0, sources_checked = 0\<rparr>)
       \<or> (card (word_set doc) \<noteq> 0 \<and> overlaps doc sources = [] \<and>
            r = \<lparr>plagiarism_score = 0, flagged_sections = 0,
                 recommendations = [NoSourcesProvided],
                 total_matches = 0, sources_checked = 0\<rparr>)
       \<or> (card (word_set doc) \<noteq> 0 \<and> overlaps doc sources \<noteq> [] \<and>
            plagiarism_score r =
              (py_max (overlaps doc sources)
                + py_sum (overlaps doc sources)
                    / rat_of_nat (length (overlaps doc sources))) / 2 \<and>
            flagged_sections r = count_above (3/10) (overlaps doc sources) \<and>
            total_matches r = count_above (15/100) (overlaps doc sources) \<and>
            sources_checked r = length sources)"
proof (cases "card (word_set doc) = 0")
  case True
  with assms show ?thesis by (auto simp: analyze_simple_def word_set_def)
next
  case False
  with assms obtain sims ms where
    loop: "simple_loop (word_set doc) sources [] [] = Inr (sims, ms)"
    by (auto simp: analyze_simple_def word_set_def Let_def split: sum.splits)
  from simple_loop_result [OF loop] have sims: "sims = overlaps doc sources" by simp
  show ?thesis
  proof (cases "sims = []")
    case True
    with assms False loop sims show ?thesis
      by (auto simp: analyze_simple_def word_set_def Let_def)
  next
    case ne: False
    with assms False loop have
      "r = \<lparr>plagiarism_score =
              (py_max sims + py_sum sims / rat_of_nat (length sims)) / 2,
            flagged_sections = count_above (3/10) sims,
            recommendations =
              (if 4/10 < (py_max sims + py_sum sims / rat_of_nat (length sims)) / 2
               then SignificantOverlap
                      ((py_max sims + py_sum sims / rat_of_nat (length sims)) / 2) #
                    map (\<lambda>(title, sim, n). SourceMatch title n)
                      (filter (\<lambda>(title, sim, n). 3/10 < sim) ms)
               else [LowSimilarity]),
            total_matches = count_above (15/100) sims,
            sources_checked = length sources\<rparr>"
      by (simp add: analyze_simple_def word_set_def Let_def)
    with False ne sims show ?thesis by simp
  qed
qed

lemma analyze_simple_bounds:
  assumes "analyze_simple doc sources = Inr r"
  shows "0 \<le> plagiarism_score r \<and> plagiarism_score r \<le> 1
         \<and> sources_checked r \<le> length sources"
  using analyze_simple_cases [OF assms] overlaps_range [of doc sources]
        mean_max_nonneg [of "overlaps doc sources"] mean_max_le_one [of "overlaps doc sources"]
  by auto

lemma analyze_simple_loop:
  assumes "analyze_simple doc sources = Inr r" and "card (word_set doc) \<noteq> 0"
  shows "\<exists>ms. simple_loop (word_set doc) sources [] [] = Inr (overlaps doc sources, ms)"
proof -
  from assms obtain sims ms where
    loop: "simple_loop (word_set doc) sources [] [] = Inr (sims, ms)"
    by (auto simp: analyze_simple_def word_set_def Let_def split: sum.splits)
  from simple_loop_result [OF loop] loop show ?thesis by auto
qed

lemma count_above_no_words:
  assumes "card (word_set doc) = 0" and "0 \<le> t"
  shows "count_above t (overlaps doc sources) = 0"
proof -
  have "filter (\<lambda>s. t < s) (overlaps doc sources) = []"
    using assms by (auto simp: filter_empty_conv overlaps_def overlap_def)
  then show ?thesis by (simp add: count_above_def)
qed

lemma analyze_simple_counts:
  assumes "analyze_simple doc sources = Inr r"
  shows "flagged_sections r = count_above (3/10) (overlaps doc sources)"
    and "total_matches r = count_above (15/100) (overlaps doc sources)"
proof -
  have z: "count_above t [] = 0" for t by (simp add: count_above_def)
  from analyze_simple_cases [OF assms]
  show "flagged_sections r = count_above (3/10) (overlaps doc sources)"
    using count_above_no_words [of doc "3/10" sources] z by auto
  from analyze_simple_cases [OF assms]
  show "total_matches r = count_above (15/100) (overlaps doc sources)"
    using count_above_no_words [of doc "15/100" sources] z by auto
qed

text \<open>On sources whose content and title are strings the analysis raises nothing.\<close>

lemma simple_loop_total:
  "\<forall>s \<in> set srcs. text_source s \<Longrightarrow> \<exists>r. simple_loop dw srcs sims ms = Inr r"
proof (induction srcs arbitrary: sims ms)
  case Nil
  show ?case by simp
next
  case (Cons src rest)
  from Cons.prems obtain t u where
    t: "dict_get src ''content'' (PStr '''') = PStr t" and
    u: "dict_get src ''title'' (PStr ''Unknown'') = PStr u"
    by (auto simp: text_source_def split: pyval.splits)
  from Cons.prems have rest: "\<forall>s \<in> set rest. text_source s" by simp
  show ?case
    using Cons.IH [OF rest] by (simp add: t u Let_def)
qed

lemma analyze_simple_total:
  assumes "\<forall>s \<in> set sources. text_source s"
  shows "\<exists>r. analyze_simple doc sources = Inr r"
proof -
  from simple_loop_total [OF assms, of "set (str_split (str_lower doc))" "[]" "[]"]
  obtain sims ms where
    "simple_loop (set (str_split (str_lower doc))) sources [] [] = Inr (sims, ms)"
    by auto
  then show ?thesis by (simp add: analyze_simple_def Let_def)
qed

subsection \<open>The embedding analysis and the dispatch\<close>

text \<open>
  The embedding analysis caps its score at 1. The word-overlap analysis, run without an
  embedding model, stays between 0 and 1.
\<close>

lemma semantic_body_upper:
  assumes "semantic_body m doc sources = Inr r"
  shows "plagiarism_score r \<le> 1 \<and> sources_checked r \<le> length sources"
  using assms
  by (auto simp: semantic_body_def Let_def split: sum.splits if_splits)

lemma scoring_upper:
  assumes "scoring model doc sources = Inr r"
  shows "plagiarism_score r \<le> 1 \<and> sources_checked r \<le> length sources"
proof (cases model)
  case None
  with assms show ?thesis using analyze_simple_bounds [of doc sources r]
    by (simp add: scoring_def)
next
  case (Some m)
  show ?thesis
  proof (cases "semantic_body m doc sources")
    case (Inl e)
    with assms Some have "analyze_simple doc sources = Inr r"
      by (simp add: scoring_def analyze_semantic_def)
    from analyze_simple_bounds [OF this] show ?thesis by simp
  next
    case (Inr r')
    with assms Some have "r' = r" by (simp add: scoring_def analyze_semantic_def)
    with Inr semantic_body_upper [of m doc sources r] show ?thesis by simp
  qed
qed

lemma analyze_document_upper:
  "\<exists>r. analyze_document model doc sources = Inr r \<and>
        plagiarism_score r \<le> 1 \<and> sources_checked r \<le> length sources"
proof (cases "doc = [] \<or> sources = []")
  case True
  then show ?thesis by (auto simp: analyze_document_def)
next
  case False
  show ?thesis
  proof (cases "scoring model doc sources")
    case (Inl e)
    with False show ?thesis by (simp add: analyze_document_def)
  next
    case (Inr r)
    with False have "analyze_document model doc sources = Inr r"
      by (simp add: analyze_document_def)
    with scoring_upper [OF Inr] show ?thesis by simp
  qed
qed

lemma lexical_document_lower:
  assumes "analyze_document None doc sources = Inr r"
  shows "0 \<le> plagiarism_score r"
proof (cases "doc = [] \<or> sources = []")
  case True
  with assms show ?thesis by (auto simp: analyze_document_def)
next
  case False
  show ?thesis
  proof (cases "analyze_simple doc sources")
    case (Inl e)
    with False assms show ?thesis by (auto simp: analyze_document_def scoring_def)
  next
    case (Inr r')
    with False assms have "r' = r" by (simp add: analyze_document_def scoring_def)
    with analyze_simple_bounds [OF Inr] show ?thesis by simp
  qed
qed


subsection \<open>Claims about the similarity service\<close>

text \<open>
  Claim C1. The specification asks that an unexpected internal error during scoring
  reaches the caller as a failure and is never turned into a result with score 0.
  \<^verbatim>\<open>analyze_document\<close> does the opposite: it always returns a result, and an exception
  raised while scoring a non-empty document against a non-empty list of sources becomes
  the result with score 0, no flagged section, no match, \<open>sources_checked\<close> the number
  of sources, and the exception as the only recommendation.
\<close>

theorem analyze_document_absorbs_errors:
  "(\<exists>r. analyze_document model doc sources = Inr r) \<and>
   (doc \<noteq> [] \<and> sources \<noteq> [] \<and> scoring model doc sources = Inl e \<longrightarrow>
      analyze_document model doc sources =
        Inr \<lparr>plagiarism_score = 0, flagged_sections = 0,
             recommendations = [ErrorMessage e], total_matches = 0,
             sources_checked = length sources\<rparr>)"
  by (auto simp: analyze_document_def split: sum.splits)

theorem analyze_document_absorbs_errors_witness:
  "''some text'' \<noteq> [] \<and> [[''content'' \<mapsto> PInt 5]] \<noteq> [] \<and>
   scoring None ''some text'' [[''content'' \<mapsto> PInt 5]] = Inl AttributeError \<and>
   analyze_document None ''some text'' [[''content'' \<mapsto> PInt 5]] =
        Inr \<lparr>plagiarism_score = 0, flagged_sections = 0,
             recommendations = [ErrorMessage AttributeError], total_matches = 0,
             sources_checked = length [[''content'' \<mapsto> PInt 5]]\<rparr>"
proof -
  have s: "scoring None ''some text'' [[''content'' \<mapsto> PInt 5]] = Inl AttributeError"
    by code_simp
  from analyze_document_absorbs_errors
         [of None "''some text''" "[[''content'' \<mapsto> PInt 5]]" AttributeError] s
  show ?thesis by simp
qed

text \<open>
  A source whose title is a list cannot be a dictionary key: the scoring raises
  \<^verbatim>\<open>TypeError\<close>, and the caller receives a result with score 0.
\<close>

theorem error_not_propagated_counterexample:
  "scoring None ''some text''
      [[''content'' \<mapsto> PStr ''a source'', ''title'' \<mapsto> PList []]] = Inl TypeError
   \<and> analyze_document None ''some text''
      [[''content'' \<mapsto> PStr ''a source'', ''title'' \<mapsto> PList []]]
     = Inr \<lparr>plagiarism_score = 0, flagged_sections = 0,
            recommendations = [ErrorMessage TypeError], total_matches = 0,
            sources_checked = 1\<rparr>"
  by code_simp

text \<open>
  Claim C2. The specification asks for a score in \<open>[0, 1]\<close> and for \<open>sources_checked\<close>
  at most the number of sources, for every input, and the response model of the route
  declares the score between 0 and 1. For the document \<^verbatim>\<open>an essay\<close> and the single
  source \<^verbatim>\<open>a source\<close>, with an embedding model whose vectors for the two texts point
  in opposite directions, \<^verbatim>\<open>analyze_document\<close> returns the score \<open>-1\<close>: the embedding
  analysis caps the score at 1 and puts no bound below it.
\<close>

theorem semantic_score_below_zero:
  "analyze_document (Some opposed_backend) ''an essay''
      [[''content'' \<mapsto> PStr ''a source'']]
     = Inr \<lparr>plagiarism_score = - 1, flagged_sections = 0,
            recommendations = [LowPlagiarismRisk], total_matches = 0, sources_checked = 1\<rparr>
   \<and> \<not> (0 \<le> (- 1 :: rat))"
  by code_simp

text \<open>
  Claim C3. The specification asks that \<open>sources_checked\<close> counts only the sources with
  non-empty content. For the document \<^verbatim>\<open>alpha beta\<close> and two sources, the first with
  empty content, the word-overlap analysis reports \<open>sources_checked = 2\<close>, while one
  source has content. The empty source is left out of the similarities and the match
  totals.
\<close>

theorem sources_checked_counts_empty_sources:
  "analyze_document None ''alpha beta''
      [[''content'' \<mapsto> PStr ''''], [''content'' \<mapsto> PStr ''alpha'']]
     = Inr \<lparr>plagiarism_score = 1/2, flagged_sections = 1,
            recommendations = [SignificantOverlap (1/2), SourceMatch (PStr ''Unknown'') 1],
            total_matches = 1, sources_checked = 2\<rparr>
   \<and> length (filter has_content
        [[''content'' \<mapsto> PStr ''''], [''content'' \<mapsto> PStr ''alpha'']]) = 1"
  by code_simp

text \<open>
  Claim C4. In the word-overlap analysis, for a document with at least one word and
  sources of which at least one has content, the similarity of each source with content
  is the number of distinct lower-cased words it shares with the document divided by the
  number of distinct lower-cased document words, and the score is the average of the
  maximum and the mean of these similarities. For the document \<^verbatim>\<open>the cat sat\<close> and
  the single source \<^verbatim>\<open>the cat sat on the mat\<close> the similarity is 1, the score is 1,
  one section is flagged and there is one match. On sources whose content and title are
  strings the analysis returns a result.
\<close>

theorem lexical_score:
  "(\<forall>doc sources. (\<forall>s \<in> set sources. text_source s) \<longrightarrow>
      (\<exists>r. analyze_simple doc sources = Inr r))
   \<and> (\<forall>doc sources r.
      str_split doc \<noteq> [] \<and> filter has_content sources \<noteq> [] \<and>
      analyze_simple doc sources = Inr r \<longrightarrow>
        (\<exists>ms. simple_loop (word_set doc) sources [] [] = Inr (overlaps doc sources, ms)) \<and>
        (\<forall>s \<in> set (filter has_content sources).
           overlap doc (content_text s) =
             rat_of_nat (card (word_set doc \<inter> word_set (content_text s)))
               / rat_of_nat (card (word_set doc))) \<and>
        plagiarism_score r =
          (Max (set (overlaps doc sources))
            + sum_list (overlaps doc sources) / rat_of_nat (length (overlaps doc sources))) / 2)
   \<and> overlap ''the cat sat'' ''the cat sat on the mat'' = 1
   \<and> analyze_simple ''the cat sat'' [[''content'' \<mapsto> PStr ''the cat sat on the mat'']] =
       Inr \<lparr>plagiarism_score = 1, flagged_sections = 1,
            recommendations = [SignificantOverlap 1, SourceMatch (PStr ''Unknown'') 3],
            total_matches = 1, sources_checked = 1\<rparr>"
proof (intro conjI allI impI)
  fix doc :: string and sources :: "source list"
  assume "\<forall>s \<in> set sources. text_source s"
  then show "\<exists>r. analyze_simple doc sources = Inr r" by (rule analyze_simple_total)
next
  fix doc sources r
  assume h: "str_split doc \<noteq> [] \<and> filter has_content sources \<noteq> [] \<and>
             analyze_simple doc sources = Inr r"
  then have c: "card (word_set doc) \<noteq> 0" using word_set_card [of doc] by simp
  from h have ne: "overlaps doc sources \<noteq> []" by (simp add: overlaps_def)
  from h c show "\<exists>ms. simple_loop (word_set doc) sources [] [] = Inr (overlaps doc sources, ms)"
    by (simp add: analyze_simple_loop)
  from c show "\<forall>s \<in> set (filter has_content sources).
           overlap doc (content_text s) =
             rat_of_nat (card (word_set doc \<inter> word_set (content_text s)))
               / rat_of_nat (card (word_set doc))"
    by (simp add: overlap_def)
  from h have "analyze_simple doc sources = Inr r" by simp
  from analyze_simple_cases [OF this] c ne
  show "plagiarism_score r =
          (Max (set (overlaps doc sources))
            + sum_list (overlaps doc sources) / rat_of_nat (length (overlaps doc sources))) / 2"
    by (simp add: py_max_eq_Max py_sum_eq_sum_list)
next
  show "overlap ''the cat sat'' ''the cat sat on the mat'' = 1" by code_simp
next
  show "analyze_simple ''the cat sat'' [[''content'' \<mapsto> PStr ''the cat sat on the mat'']] =
       Inr \<lparr>plagiarism_score = 1, flagged_sections = 1,
            recommendations = [SignificantOverlap 1, SourceMatch (PStr ''Unknown'') 3],
            total_matches = 1, sources_checked = 1\<rparr>" by code_simp
qed

theorem lexical_score_witness:
  "(\<exists>r. analyze_simple ''The cat sat''
      [[''content'' \<mapsto> PStr ''a cat''], [''content'' \<mapsto> PStr ''''],
       [''content'' \<mapsto> PStr ''the cat sat on the mat'']] = Inr r) \<and>
   str_split ''The cat sat'' \<noteq> [] \<and>
   filter has_content [[''content'' \<mapsto> PStr ''a cat''], [''content'' \<mapsto> PStr ''''],
                       [''content'' \<mapsto> PStr ''the cat sat on the mat'']] \<noteq> [] \<and>
   analyze_simple ''The cat sat''
      [[''content'' \<mapsto> PStr ''a cat''], [''content'' \<mapsto> PStr ''''],
       [''content'' \<mapsto> PStr ''the cat sat on the mat'']] =
     Inr \<lparr>plagiarism_score = 5/6, flagged_sections = 2,
          recommendations = [SignificantOverlap (5/6), SourceMatch (PStr ''Unknown'') 3],
          total_matches = 2, sources_checked = 3\<rparr> \<and>
   (5/6 :: rat) =
     (Max (set (overlaps ''The cat sat''
          [[''content'' \<mapsto> PStr ''a cat''], [''content'' \<mapsto> PStr ''''],
           [''content'' \<mapsto> PStr ''the cat sat on the mat'']]))
      + sum_list (overlaps ''The cat sat''
          [[''content'' \<mapsto> PStr ''a cat''], [''content'' \<mapsto> PStr ''''],
           [''content'' \<mapsto> PStr ''the cat sat on the mat'']])
        / rat_of_nat (length (overlaps ''The cat sat''
          [[''content'' \<mapsto> PStr ''a cat''], [''content'' \<mapsto> PStr ''''],
           [''content'' \<mapsto> PStr ''the cat sat on the mat'']]))) / 2"
proof -
  let ?S = "[[''content'' \<mapsto> PStr ''a cat''], [''content'' \<mapsto> PStr ''''],
             [''content'' \<mapsto> PStr ''the cat sat on the mat'']]"
  let ?R = "\<lparr>plagiarism_score = 5/6, flagged_sections = 2,
          recommendations = [SignificantOverlap (5/6), SourceMatch (PStr ''Unknown'') 3],
          total_matches = 2, sources_checked = 3\<rparr>"
  have ts: "\<forall>s \<in> set ?S. text_source s"
    by (simp add: text_source_def dict_get_def)
  from ts have ex: "\<exists>r. analyze_simple ''The cat sat'' ?S = Inr r"
    by (rule lexical_score [THEN conjunct1, THEN spec, THEN spec, THEN mp])
  have a: "str_split ''The cat sat'' \<noteq> []" by code_simp
  have b: "filter has_content ?S \<noteq> []" by code_simp
  have c: "analyze_simple ''The cat sat'' ?S = Inr ?R" by code_simp
  from lexical_score have
    "str_split ''The cat sat'' \<noteq> [] \<and> filter has_content ?S \<noteq> [] \<and>
      analyze_simple ''The cat sat'' ?S = Inr ?R \<longrightarrow>
     plagiarism_score ?R =
          (Max (set (overlaps ''The cat sat'' ?S))
            + sum_list (overlaps ''The cat sat'' ?S)
                / rat_of_nat (length (overlaps ''The cat sat'' ?S))) / 2"
    by blast
  with a b c have d: "(5/6 :: rat) =
          (Max (set (overlaps ''The cat sat'' ?S))
            + sum_list (overlaps ''The cat sat'' ?S)
                / rat_of_nat (length (overlaps ''The cat sat'' ?S))) / 2"
    by simp
  from ex a b c d show ?thesis by (intro conjI)
qed

text \<open>
  Claim C5. In the word-overlap analysis \<open>flagged_sections\<close> is the number of sources
  with content whose similarity is strictly above 0.3, and \<open>total_matches\<close> the number
  of those strictly above 0.15. A document of ten distinct words that shares three of
  them with its single source has similarity exactly 0.3 and is not flagged. On sources
  whose content and title are strings the analysis returns a result.
\<close>

theorem lexical_thresholds:
  "(\<forall>doc sources. (\<forall>s \<in> set sources. text_source s) \<longrightarrow>
      (\<exists>r. analyze_simple doc sources = Inr r))
   \<and> (\<forall>doc sources r.
      analyze_simple doc sources = Inr r \<longrightarrow>
        flagged_sections r =
          length (filter (\<lambda>s. 3/10 < overlap doc (content_text s))
                    (filter has_content sources)) \<and>
        total_matches r =
          length (filter (\<lambda>s. 15/100 < overlap doc (content_text s))
                    (filter has_content sources)))
   \<and> overlap ''a b c d e f g h i j'' ''a b c x y z'' = 3/10
   \<and> analyze_simple ''a b c d e f g h i j'' [[''content'' \<mapsto> PStr ''a b c x y z'']] =
       Inr \<lparr>plagiarism_score = 3/10, flagged_sections = 0,
            recommendations = [LowSimilarity],
            total_matches = 1, sources_checked = 1\<rparr>"
proof (intro conjI allI impI)
  fix doc :: string and sources :: "source list"
  assume "\<forall>s \<in> set sources. text_source s"
  then show "\<exists>r. analyze_simple doc sources = Inr r" by (rule analyze_simple_total)
next
  fix doc sources r
  assume h: "analyze_simple doc sources = Inr r"
  from analyze_simple_counts(1) [OF h]
  show "flagged_sections r =
          length (filter (\<lambda>s. 3/10 < overlap doc (content_text s))
                    (filter has_content sources))"
    by (simp only: count_above_overlaps)
  from analyze_simple_counts(2) [OF h]
  show "total_matches r =
          length (filter (\<lambda>s. 15/100 < overlap doc (content_text s))
                    (filter has_content sources))"
    by (simp only: count_above_overlaps)
next
  show "overlap ''a b c d e f g h i j'' ''a b c x y z'' = 3/10" by code_simp
next
  show "analyze_simple ''a b c d e f g h i j'' [[''content'' \<mapsto> PStr ''a b c x y z'']] =
       Inr \<lparr>plagiarism_score = 3/10, flagged_sections = 0,
            recommendations = [LowSimilarity],
            total_matches = 1, sources_checked = 1\<rparr>" by code_simp
qed

theorem lexical_thresholds_witness:
  "(\<exists>r. analyze_simple ''one two three four five six seven eight nine ten''
      [[''content'' \<mapsto> PStr ''one two three''],
       [''content'' \<mapsto> PStr ''one TWO three four'']] = Inr r) \<and>
   analyze_simple ''one two three four five six seven eight nine ten''
      [[''content'' \<mapsto> PStr ''one two three''],
       [''content'' \<mapsto> PStr ''one TWO three four'']] =
     Inr \<lparr>plagiarism_score = 3/8, flagged_sections = 1,
          recommendations = [LowSimilarity], total_matches = 2, sources_checked = 2\<rparr> \<and>
   length (filter (\<lambda>s. 3/10 < overlap ''one two three four five six seven eight nine ten''
                                (content_text s))
      (filter has_content [[''content'' \<mapsto> PStr ''one two three''],
                           [''content'' \<mapsto> PStr ''one TWO three four'']])) = 1"
proof -
  let ?S = "[[''content'' \<mapsto> PStr ''one two three''],
             [''content'' \<mapsto> PStr ''one TWO three four'']]"
  let ?D = "''one two three four five six seven eight nine ten''"
  let ?R = "\<lparr>plagiarism_score = 3/8, flagged_sections = 1,
          recommendations = [LowSimilarity], total_matches = 2, sources_checked = 2\<rparr>"
  have ts: "\<forall>s \<in> set ?S. text_source s"
    by (simp add: text_source_def dict_get_def)
  from ts have ex: "\<exists>r. analyze_simple ?D ?S = Inr r"
    by (rule lexical_thresholds [THEN conjunct1, THEN spec, THEN spec, THEN mp])
  have c: "analyze_simple ?D ?S = Inr ?R" by code_simp
  from lexical_thresholds have
    "analyze_simple ?D ?S = Inr ?R \<longrightarrow>
       flagged_sections ?R =
         length (filter (\<lambda>s. 3/10 < overlap ?D (content_text s)) (filter has_content ?S))"
    by blast
  with c have d: "length (filter (\<lambda>s. 3/10 < overlap ?D (content_text s))
                            (filter has_content ?S)) = 1"
    by simp
  from ex c d show ?thesis by (intro conjI)
qed


section \<open>Properties of the citation generators\<close>

subsection \<open>Splitting a joined list of words\<close>











lemma style_names_distinct:
  "APA \<noteq> MLA" "APA \<noteq> CHICAGO" "APA \<noteq> HARVARD" "APA \<noteq> IEEE"
  "MLA \<noteq> CHICAGO" "MLA \<noteq> HARVARD" "MLA \<noteq> IEEE"
  "CHICAGO \<noteq> HARVARD" "CHICAGO \<noteq> IEEE" "HARVARD \<noteq> IEEE"
  by (simp_all add: APA_def MLA_def CHICAGO_def HARVARD_def IEEE_def)

lemma generate_citation_styles:
  "generate_citation m APA = generate_apa m"
  "generate_citation m MLA = generate_mla m"
  "generate_citation m CHICAGO = generate_chicago m"
  "generate_citation m HARVARD = generate_apa m"
  "generate_citation m IEEE = generate_ieee m"
  using style_names_distinct
  by (simp_all add: generate_citation_def generate_harvard_def)

lemma generate_citation_dict_styles:
  "generate_citation_dict md APA = generate_apa_dict md"
  "generate_citation_dict md MLA = generate_mla_dict md"
  "generate_citation_dict md CHICAGO = generate_chicago_dict md"
  "generate_citation_dict md HARVARD = generate_harvard_dict md"
  "generate_citation_dict md IEEE = generate_ieee_dict md"
  "style \<notin> supported_styles \<Longrightarrow> generate_citation_dict md style = generate_apa_dict md"
  using style_names_distinct
  by (simp_all add: generate_citation_dict_def supported_styles_def)

subsection \<open>Example records\<close>

lemma jane_doe_facts:
  "format_authors_apa [''Jane Doe''] = ''Doe, J.''"
  "last_word ''Jane Doe'' = Inr ''Doe''"
  "str_int 2024 = ''2024''"
  "before_comma ''Doe, J.'' = ''Doe''"
  by code_simp+

subsection \<open>The year in the full entry\<close>



lemma get_authors_year [simp]: "get_authors (md\<lparr>key_year := e\<rparr>) = get_authors md"
  by (simp add: get_authors_def)
















subsection \<open>Claims about the citation generators\<close>

text \<open>
  Claim C6. The specification asks that a style outside the five supported ones yields
  the APA citation and no error. The generator of the backend service does so: its last
  branch calls the APA generator. The generator of \<^verbatim>\<open>Citation.py\<close> raises
  \<^verbatim>\<open>ValueError\<close> for such a style.
\<close>

theorem unknown_style_handling:
  "style \<notin> supported_styles \<longrightarrow>
     generate_citation_dict md style = generate_citation_dict md APA \<and>
     generate_citation m style = Inl ValueError"
  by (simp add: generate_citation_dict_def generate_citation_def supported_styles_def)

theorem unknown_style_handling_witness:
  "''Vancouver'' \<notin> supported_styles \<and>
   generate_citation_dict jane_doe_dict ''Vancouver'' = generate_citation_dict jane_doe_dict APA \<and>
   generate_citation jane_doe ''Vancouver'' = Inl ValueError"
proof -
  have "''Vancouver'' \<notin> supported_styles"
    by (simp add: supported_styles_def APA_def MLA_def CHICAGO_def HARVARD_def IEEE_def)
  with unknown_style_handling [of "''Vancouver''" jane_doe_dict jane_doe] show ?thesis by simp
qed

text \<open>With \<^verbatim>\<open>Citation.py\<close> the style \<^verbatim>\<open>apa\<close> is an error, the style \<^verbatim>\<open>APA\<close> a citation.\<close>

theorem unknown_style_raises_counterexample:
  "generate_citation jane_doe ''apa'' = Inl ValueError \<and>
   generate_citation jane_doe APA =
     Inr \<lparr>full = ''Doe, J. (2024). T. *J*.'', in_text = ''(Doe, 2024)''\<rparr>"
  by code_simp




text \<open>
  Claim C8. For the single author Jane Doe, the year 2024, an article with title T in
  the publication J, the specification gives the APA in-text citation
  \<^verbatim>\<open>(Doe, 2024)\<close> and a full citation that begins \<^verbatim>\<open>Doe, J. (2024). T. \<close>.
  \<^verbatim>\<open>Citation.py\<close> produces both, whatever the other fields hold. The backend service
  produces the beginning of the full citation, and the in-text citation
  \<^verbatim>\<open>(Doe 2024)\<close>, without the comma.
\<close>

theorem apa_single_author_example:
  "(\<exists>rest. generate_citation
       \<lparr>title = ''T'', authors = [''Jane Doe''], year = Some 2024,
        publication_name = Some ''J'', volume = v, issue = i, pages = p,
        url = u, doi = d, access_date = a, source_type = ''article''\<rparr> APA
     = Inr \<lparr>full = ''Doe, J. (2024). T. '' @ rest, in_text = ''(Doe, 2024)''\<rparr>)
   \<and> (\<exists>rest. generate_citation_dict
       \<lparr>key_title = Has ''T'', key_authors = Has [''Jane Doe''], key_year = Has 2024,
        key_publication_name = Has ''J'', key_url = link\<rparr> APA
     = \<lparr>full = ''Doe, J. (2024). T. '' @ rest, in_text = ''(Doe 2024)''\<rparr>)"
proof
  show "\<exists>rest. generate_citation
       \<lparr>title = ''T'', authors = [''Jane Doe''], year = Some 2024,
        publication_name = Some ''J'', volume = v, issue = i, pages = p,
        url = u, doi = d, access_date = a, source_type = ''article''\<rparr> APA
     = Inr \<lparr>full = ''Doe, J. (2024). T. '' @ rest, in_text = ''(Doe, 2024)''\<rparr>"
    by (simp add: generate_citation_styles generate_apa_def Let_def jane_doe_facts
          and_then_def year_or_nd_def)
  show "\<exists>rest. generate_citation_dict
       \<lparr>key_title = Has ''T'', key_authors = Has [''Jane Doe''], key_year = Has 2024,
        key_publication_name = Has ''J'', key_url = link\<rparr> APA
     = \<lparr>full = ''Doe, J. (2024). T. '' @ rest, in_text = ''(Doe 2024)''\<rparr>"
    by (cases link)
       (simp_all add: generate_citation_dict_styles generate_apa_dict_def Let_def
          jane_doe_facts get_authors_def get_text_def year_text_def)
qed

text \<open>The in-text citation of the backend service differs from the expected one.\<close>

theorem apa_in_text_without_comma_counterexample:
  "generate_citation_dict jane_doe_dict APA =
     \<lparr>full = ''Doe, J. (2024). T. J.'', in_text = ''(Doe 2024)''\<rparr>
   \<and> ''(Doe 2024)'' \<noteq> ''(Doe, 2024)''"
  by code_simp







end
